theory Spec2Isabelle
  imports Main "HOL-Library.Sublist"
begin

section \<open>Data model of testAPI.py\<close>

text \<open>
  testAPI.py is a pytest module of five checks. Each check is a Python function that
  passes when it returns and fails when an exception leaves it. What a check reads is the
  process environment (after the module-level \<open>load_dotenv()\<close> has run) and the two vendor
  packages \<open>openai\<close> and \<open>anthropic\<close>; what it does to the outside is the requests it
  hands to a vendor client. The vendor packages are not part of the repository and are
  parameters of the model.
\<close>

subsection \<open>Exceptions and outcomes\<close>

text \<open>
  A raised Python exception, with its class name and its \<open>str()\<close>. The clause
  \<open>except Exception\<close> catches the instances of classes that derive from \<open>Exception\<close>
  (ImportError, TypeError, AssertionError, the vendors' API errors, ...) and no instance of
  a class that derives from \<open>BaseException\<close> alone (KeyboardInterrupt, SystemExit,
  GeneratorExit, and the \<open>Failed\<close> that \<open>pytest.fail\<close> raises), so the two kinds are two
  constructors.
\<close>

datatype pyexc =
    Exception string string
  | BaseException string string

fun str :: "pyexc \<Rightarrow> string" where
  "str (Exception c t) = t"
| "str (BaseException c t) = t"

text \<open>\<open>assert cond, msg\<close> raises \<open>AssertionError(msg)\<close>; \<open>assert cond\<close> raises it with no
  argument, whose \<open>str()\<close> is empty. This is the text Python gives; under pytest's
  assertion rewriting an explanation of the failed expression follows it.\<close>

definition AssertionError :: "string \<Rightarrow> pyexc" where
  "AssertionError msg = Exception ''AssertionError'' msg"

text \<open>\<open>pytest.fail(msg)\<close> raises pytest's \<open>Failed(msg)\<close>, a \<open>BaseException\<close>.\<close>

definition pytest_fail :: "string \<Rightarrow> pyexc" where
  "pytest_fail msg = BaseException ''Failed'' msg"

definition IndexError :: "string \<Rightarrow> pyexc" where
  "IndexError msg = Exception ''IndexError'' msg"

definition TypeError :: "string \<Rightarrow> pyexc" where
  "TypeError msg = Exception ''TypeError'' msg"

definition AttributeError :: "string \<Rightarrow> pyexc" where
  "AttributeError msg = Exception ''AttributeError'' msg"

datatype outcome = Passed | Raised pyexc

subsection \<open>Strings\<close>

text \<open>Python's \<open>needle in hay\<close> on two \<open>str\<close> values: \<open>needle\<close> occurs in \<open>hay\<close> as a
  contiguous run, scanning the start positions from the left.\<close>

fun str_in :: "string \<Rightarrow> string \<Rightarrow> bool" where
  "str_in needle [] = (needle = [])"
| "str_in needle (c # cs) = (prefix needle (c # cs) \<or> str_in needle cs)"

text \<open>Truthiness of the value \<open>os.getenv\<close> returns: \<open>None\<close> and the empty string are
  false, every other string is true.\<close>

fun truthy :: "string option \<Rightarrow> bool" where
  "truthy None = False"
| "truthy (Some v) = (v \<noteq> [])"

subsection \<open>Requests and responses\<close>

text \<open>The dict \<open>{"role": ..., "content": ...}\<close> of a request, and the keyword arguments
  \<open>model\<close>, \<open>messages\<close>, \<open>max_tokens\<close> that both \<open>create\<close> calls are given.\<close>

record message_param =
  role :: string
  content :: string

record create_kwargs =
  model :: string
  messages :: "message_param list"
  max_tokens :: int

text \<open>The part of an OpenAI response the check reads, \<open>resp.choices[0].message.content\<close>:
  a list of choices, each with a message whose content is a string or \<open>None\<close>.\<close>

datatype chat_completion_message = ChatCompletionMessage "string option"
datatype choice = Choice chat_completion_message
datatype chat_completion = ChatCompletion "choice list"

text \<open>The part of an Anthropic response the check reads, \<open>resp.content[0].text\<close>: a list
  of content blocks. A text block has a \<open>text\<close>; a block of another class (named by its
  class) has no such attribute.\<close>

datatype content_block = TextBlock string | OtherBlock string
datatype message_response = Message "content_block list"

subsection \<open>The vendor packages\<close>

text \<open>
  What a loaded \<open>openai\<close> module gives the check: the name \<open>OpenAI\<close> (or the error that
  \<open>from openai import OpenAI\<close> raises when the module has no such name), and
  \<open>client.chat.completions.create\<close>. The constructor is called with no argument and
  reads \<open>os.environ\<close> itself (\<open>OPENAI_API_KEY\<close>, by the source's comment, and whatever
  else the package looks at), so it is a function of the whole environment. Either call
  returns or raises.
\<close>

record 'c openai_module =
  OpenAI :: "pyexc + ((string \<rightharpoonup> string) \<Rightarrow> pyexc + 'c)"
  chat_completions_create :: "'c \<Rightarrow> create_kwargs \<Rightarrow> pyexc + chat_completion"

text \<open>The same for \<open>anthropic\<close>: the name \<open>Anthropic\<close>, whose constructor reads the
  environment (\<open>ANTHROPIC_API_KEY\<close>, by the source's comment), and
  \<open>client.messages.create\<close>.\<close>

record 'c anthropic_module =
  Anthropic :: "pyexc + ((string \<rightharpoonup> string) \<Rightarrow> pyexc + 'c)"
  messages_create :: "'c \<Rightarrow> create_kwargs \<Rightarrow> pyexc + message_response"

text \<open>What importing each package does in this interpreter: it raises, or the module is
  loaded. Loading runs the package's own code, which may read the environment too.\<close>

record ('a, 'b) interpreter =
  import_openai :: "(string \<rightharpoonup> string) \<Rightarrow> pyexc + 'a openai_module"
  import_anthropic :: "(string \<rightharpoonup> string) \<Rightarrow> pyexc + 'b anthropic_module"

subsection \<open>Process state\<close>

text \<open>A request handed to a vendor client, tagged with the endpoint it went to.\<close>

datatype call = ChatCompletionsCreate create_kwargs | MessagesCreate create_kwargs

text \<open>\<open>environ\<close> is \<open>os.environ\<close>; \<open>issued\<close> records, oldest first, the requests the
  process has handed to vendor clients so far.\<close>

record process =
  environ :: "string \<rightharpoonup> string"
  issued :: "call list"

definition getenv :: "process \<Rightarrow> string \<Rightarrow> string option" where
  "getenv s k = environ s k"

section \<open>The checks\<close>

definition test_openai_key_present :: "process \<Rightarrow> outcome \<times> process" where
  "test_openai_key_present s =
     (if truthy (getenv s ''OPENAI_API_KEY'') then (Passed, s)
      else (Raised (AssertionError ''OPENAI_API_KEY is not set in this environment''), s))"

definition test_anthropic_key_present :: "process \<Rightarrow> outcome \<times> process" where
  "test_anthropic_key_present s =
     (if truthy (getenv s ''ANTHROPIC_API_KEY'') then (Passed, s)
      else (Raised (AssertionError ''ANTHROPIC_API_KEY is not set in this environment''), s))"

text \<open>\<open>resp.choices[0].message.content\<close>: indexing an empty list raises IndexError; the
  content may be \<open>None\<close>.\<close>

fun first_choice_content :: "chat_completion \<Rightarrow> pyexc + string option" where
  "first_choice_content (ChatCompletion []) = Inl (IndexError ''list index out of range'')"
| "first_choice_content (ChatCompletion (Choice (ChatCompletionMessage c) # rest)) = Inr c"

text \<open>\<open>assert "OK" in x\<close> for the content \<open>x\<close> of a message: \<open>in\<close> raises TypeError on
  \<open>None\<close>.\<close>

fun assert_OK_in_content :: "string option \<Rightarrow> outcome" where
  "assert_OK_in_content None =
     Raised (TypeError ''argument of type 'NoneType' is not iterable'')"
| "assert_OK_in_content (Some t) =
     (if str_in ''OK'' t then Passed else Raised (AssertionError []))"

definition test_openai_call :: "('a, 'b) interpreter \<Rightarrow> process \<Rightarrow> outcome \<times> process" where
  "test_openai_call py s =
     (case import_openai py (environ s) of
        Inl e \<Rightarrow> (Raised e, s)
      | Inr openai \<Rightarrow>
     (case OpenAI openai of
        Inl e \<Rightarrow> (Raised e, s)
      | Inr new \<Rightarrow>
     (case new (environ s) of
        Inl e \<Rightarrow> (Raised e, s)
      | Inr client \<Rightarrow>
     (let kwargs = \<lparr>model = ''gpt-4o-mini'',
                     messages = [\<lparr>role = ''user'', content = ''Say OK''\<rparr>],
                     max_tokens = 5\<rparr>;
          s' = s\<lparr>issued := issued s @ [ChatCompletionsCreate kwargs]\<rparr>
      in case chat_completions_create openai client kwargs of
           Inl e \<Rightarrow> (Raised e, s')
         | Inr resp \<Rightarrow>
          (case first_choice_content resp of
             Inl e \<Rightarrow> (Raised e, s')
           | Inr c \<Rightarrow> (assert_OK_in_content c, s'))))))"

text \<open>\<open>import anthropic\<close> inside \<open>try\<close>; \<open>except Exception as e\<close> turns what it catches
  into \<open>pytest.fail\<close> with the f-string's text, which ends in \<open>str(e)\<close>.\<close>

definition test_anthropic_installed :: "('a, 'b) interpreter \<Rightarrow> process \<Rightarrow> outcome \<times> process" where
  "test_anthropic_installed py s =
     (case import_anthropic py (environ s) of
        Inr anthropic \<Rightarrow> (Passed, s)
      | Inl (Exception c t) \<Rightarrow>
          (Raised (pytest_fail (''anthropic package not installed in this interpreter: ''
                                 @ str (Exception c t))), s)
      | Inl (BaseException c t) \<Rightarrow> (Raised (BaseException c t), s))"

text \<open>\<open>resp.content[0].text\<close>: IndexError on an empty list, AttributeError on a block
  that is not a text block.\<close>

definition quoted :: "string \<Rightarrow> string" where
  "quoted x = [CHR 0x27] @ x @ [CHR 0x27]"

fun first_block_text :: "message_response \<Rightarrow> pyexc + string" where
  "first_block_text (Message []) = Inl (IndexError ''list index out of range'')"
| "first_block_text (Message (TextBlock t # rest)) = Inr t"
| "first_block_text (Message (OtherBlock c # rest)) =
     Inl (AttributeError (quoted c @ '' object has no attribute '' @ quoted ''text''))"

definition test_anthropic_call :: "('a, 'b) interpreter \<Rightarrow> process \<Rightarrow> outcome \<times> process" where
  "test_anthropic_call py s =
     (case import_anthropic py (environ s) of
        Inl e \<Rightarrow> (Raised e, s)
      | Inr anthropic \<Rightarrow>
     (case Anthropic anthropic of
        Inl e \<Rightarrow> (Raised e, s)
      | Inr new \<Rightarrow>
     (case new (environ s) of
        Inl e \<Rightarrow> (Raised e, s)
      | Inr client \<Rightarrow>
     (let kwargs = \<lparr>model = ''claude-3-haiku-20240307'',
                     messages = [\<lparr>role = ''user'', content = ''Say OK''\<rparr>],
                     max_tokens = 5\<rparr>;
          s' = s\<lparr>issued := issued s @ [MessagesCreate kwargs]\<rparr>
      in case messages_create anthropic client kwargs of
           Inl e \<Rightarrow> (Raised e, s')
         | Inr resp \<Rightarrow>
          (case first_block_text resp of
             Inl e \<Rightarrow> (Raised e, s')
           | Inr t \<Rightarrow> (assert_OK_in_content (Some t), s'))))))"

subsection \<open>Running a check again\<close>

text \<open>The five test functions of the module, and the function each name runs.\<close>

datatype check =
    OpenaiKeyPresent
  | OpenaiCall
  | AnthropicInstalled
  | AnthropicKeyPresent
  | AnthropicCall

fun run_check :: "('a, 'b) interpreter \<Rightarrow> check \<Rightarrow> process \<Rightarrow> outcome \<times> process" where
  "run_check py OpenaiKeyPresent s = test_openai_key_present s"
| "run_check py OpenaiCall s = test_openai_call py s"
| "run_check py AnthropicInstalled s = test_anthropic_installed py s"
| "run_check py AnthropicKeyPresent s = test_anthropic_key_present s"
| "run_check py AnthropicCall s = test_anthropic_call py s"

text \<open>Running one check \<open>n\<close> times in the same process: each run starts in the state the
  one before left, and the outcomes are collected in order.\<close>

fun rerun :: "(process \<Rightarrow> outcome \<times> process) \<Rightarrow> nat \<Rightarrow> process \<Rightarrow> outcome list \<times> process" where
  "rerun f 0 s = ([], s)"
| "rerun f (Suc n) s =
     (case f s of (r, s') \<Rightarrow> (case rerun f n s' of (rs, s'') \<Rightarrow> (r # rs, s'')))"

subsection \<open>A run of the module\<close>

text \<open>The test functions in the order the file defines them. The file has no skip marker,
  no fixture and no dependency between its functions.\<close>

definition test_functions :: "check list" where
  "test_functions =
     [OpenaiKeyPresent, OpenaiCall, AnthropicInstalled, AnthropicKeyPresent, AnthropicCall]"

text \<open>A run calls each function of the list in turn, in the state the one before left and
  whatever the earlier outcomes were, and reports each function with its outcome.\<close>

fun run_all :: "('a, 'b) interpreter \<Rightarrow> check list \<Rightarrow> process
                  \<Rightarrow> (check \<times> outcome) list \<times> process" where
  "run_all py [] s = ([], s)"
| "run_all py (c # cs) s =
     (case run_check py c s of (r, s') \<Rightarrow>
        (case run_all py cs s' of (rs, s'') \<Rightarrow> ((c, r) # rs, s'')))"

definition run_module :: "('a, 'b) interpreter \<Rightarrow> process \<Rightarrow> (check \<times> outcome) list \<times> process" where
  "run_module py s = run_all py test_functions s"

subsection \<open>Stand-ins for the vendor packages\<close>

text \<open>Deterministic stand-ins for the two packages, used to run the checks on concrete
  inputs. A client is the key it was built with. The first pair builds a client from
  whatever the environment holds for its key, also from no key, and answers every request
  with "OK".\<close>

definition echo_openai :: "string option openai_module" where
  "echo_openai =
     \<lparr>OpenAI = Inr (\<lambda>env. Inr (env ''OPENAI_API_KEY'')),
      chat_completions_create =
        (\<lambda>client kwargs. Inr (ChatCompletion [Choice (ChatCompletionMessage (Some ''OK''))]))\<rparr>"

definition echo_anthropic :: "string option anthropic_module" where
  "echo_anthropic =
     \<lparr>Anthropic = Inr (\<lambda>env. Inr (env ''ANTHROPIC_API_KEY'')),
      messages_create = (\<lambda>client kwargs. Inr (Message [TextBlock ''OK'']))\<rparr>"

text \<open>The second pair refuses a missing or empty key: the OpenAI constructor raises on
  no key, and either \<open>create\<close> raises when the client has no key or an empty one.\<close>

definition keyed_openai :: "string option openai_module" where
  "keyed_openai =
     \<lparr>OpenAI = Inr (\<lambda>env. case env ''OPENAI_API_KEY'' of
                               None \<Rightarrow> Inl (Exception ''OpenAIError'' ''The api_key client option must be set'')
                             | Some v \<Rightarrow> Inr (Some v)),
      chat_completions_create =
        (\<lambda>client kwargs.
           if truthy client
           then Inr (ChatCompletion [Choice (ChatCompletionMessage (Some ''OK''))])
           else Inl (Exception ''AuthenticationError'' ''Incorrect API key provided''))\<rparr>"

definition keyed_anthropic :: "string option anthropic_module" where
  "keyed_anthropic =
     \<lparr>Anthropic = Inr (\<lambda>env. Inr (env ''ANTHROPIC_API_KEY'')),
      messages_create =
        (\<lambda>client kwargs.
           if truthy client
           then Inr (Message [TextBlock ''OK''])
           else Inl (Exception ''AuthenticationError'' ''invalid x-api-key''))\<rparr>"


definition echo_py :: "(string option, string option) interpreter" where
  "echo_py =
     \<lparr>import_openai = (\<lambda>env. Inr echo_openai), import_anthropic = (\<lambda>env. Inr echo_anthropic)\<rparr>"

definition keyed_py :: "(string option, string option) interpreter" where
  "keyed_py =
     \<lparr>import_openai = (\<lambda>env. Inr keyed_openai),
      import_anthropic = (\<lambda>env. Inr keyed_anthropic)\<rparr>"


text \<open>An interpreter without the \<open>anthropic\<close> package, and one where loading it is
  interrupted from the keyboard.\<close>

definition ModuleNotFoundError_anthropic :: pyexc where
  "ModuleNotFoundError_anthropic =
     Exception ''ModuleNotFoundError'' (''No module named '' @ quoted ''anthropic'')"

definition KeyboardInterrupt :: pyexc where
  "KeyboardInterrupt = BaseException ''KeyboardInterrupt'' []"

definition no_anthropic_py :: "(string option, string option) interpreter" where
  "no_anthropic_py =
     \<lparr>import_openai = (\<lambda>env. Inr echo_openai),
      import_anthropic = (\<lambda>env. Inl ModuleNotFoundError_anthropic)\<rparr>"

definition interrupted_py :: "(string option, string option) interpreter" where
  "interrupted_py =
     \<lparr>import_openai = (\<lambda>env. Inr echo_openai),
      import_anthropic = (\<lambda>env. Inl KeyboardInterrupt)\<rparr>"

text \<open>Three processes that have issued nothing yet: no key set, both keys set, and
  \<open>OPENAI_API_KEY\<close> set to the empty string beside a set \<open>ANTHROPIC_API_KEY\<close>.\<close>

definition no_keys :: process where
  "no_keys = \<lparr>environ = Map.empty, issued = []\<rparr>"

definition both_keys :: process where
  "both_keys =
     \<lparr>environ = [''OPENAI_API_KEY'' \<mapsto> ''sk-test'', ''ANTHROPIC_API_KEY'' \<mapsto> ''sk-ant-test''],
      issued = []\<rparr>"

definition empty_openai_key :: process where
  "empty_openai_key =
     \<lparr>environ = [''OPENAI_API_KEY'' \<mapsto> [], ''ANTHROPIC_API_KEY'' \<mapsto> ''sk-ant-test''],
      issued = []\<rparr>"

section \<open>Properties\<close>

subsection \<open>Substring test\<close>

text \<open>\<open>str_in\<close> decides whether the needle occurs somewhere in the haystack.\<close>

lemma str_in_iff: "str_in n h \<longleftrightarrow> (\<exists>p q. h = p @ n @ q)"
proof (induction h)
  case Nil
  then show ?case by auto
next
  case (Cons c cs)
  show ?case
  proof
    assume "str_in n (c # cs)"
    then consider "prefix n (c # cs)" | "str_in n cs" by auto
    then show "\<exists>p q. c # cs = p @ n @ q"
    proof cases
      case 1
      then obtain q where "c # cs = n @ q" by (auto simp: prefix_def)
      then have "c # cs = [] @ n @ q" by simp
      then show ?thesis by blast
    next
      case 2
      with Cons.IH obtain p q where "cs = p @ n @ q" by blast
      then have "c # cs = (c # p) @ n @ q" by simp
      then show ?thesis by blast
    qed
  next
    assume "\<exists>p q. c # cs = p @ n @ q"
    then obtain p q where eq: "c # cs = p @ n @ q" by blast
    show "str_in n (c # cs)"
    proof (cases p)
      case Nil
      with eq have "prefix n (c # cs)" by (simp add: prefix_def)
      then show ?thesis by simp
    next
      case (Cons a p')
      with eq have "cs = p' @ n @ q" by simp
      with Cons.IH have "str_in n cs" by blast
      then show ?thesis by simp
    qed
  qed
qed

lemma truthy_iff: "truthy x \<longleftrightarrow> (\<exists>v. x = Some v \<and> v \<noteq> [])"
  by (cases x) auto

subsection \<open>Key-presence checks\<close>

lemma names_variable:
  "r = Raised (AssertionError (k @ rest)) \<Longrightarrow> \<exists>p q. r = Raised (AssertionError (p @ k @ q))"
  by (metis append_Nil)

lemma openai_key_present_passes:
  "fst (test_openai_key_present s) = Passed
     \<longleftrightarrow> (\<exists>v. environ s ''OPENAI_API_KEY'' = Some v \<and> v \<noteq> [])"
  by (simp add: test_openai_key_present_def getenv_def truthy_iff)

lemma openai_key_present_fails:
  assumes "fst (test_openai_key_present s) \<noteq> Passed"
  shows "\<exists>p q. fst (test_openai_key_present s)
                  = Raised (AssertionError (p @ ''OPENAI_API_KEY'' @ q))"
proof -
  from assms have "fst (test_openai_key_present s)
      = Raised (AssertionError ''OPENAI_API_KEY is not set in this environment'')"
    by (simp add: test_openai_key_present_def split: if_splits)
  then have "fst (test_openai_key_present s)
      = Raised (AssertionError (''OPENAI_API_KEY'' @ '' is not set in this environment''))"
    by simp
  then show ?thesis by (rule names_variable)
qed

lemma anthropic_key_present_passes:
  "fst (test_anthropic_key_present s) = Passed
     \<longleftrightarrow> (\<exists>v. environ s ''ANTHROPIC_API_KEY'' = Some v \<and> v \<noteq> [])"
  by (simp add: test_anthropic_key_present_def getenv_def truthy_iff)

lemma anthropic_key_present_fails:
  assumes "fst (test_anthropic_key_present s) \<noteq> Passed"
  shows "\<exists>p q. fst (test_anthropic_key_present s)
                  = Raised (AssertionError (p @ ''ANTHROPIC_API_KEY'' @ q))"
proof -
  from assms have "fst (test_anthropic_key_present s)
      = Raised (AssertionError ''ANTHROPIC_API_KEY is not set in this environment'')"
    by (simp add: test_anthropic_key_present_def split: if_splits)
  then have "fst (test_anthropic_key_present s)
      = Raised (AssertionError (''ANTHROPIC_API_KEY'' @ '' is not set in this environment''))"
    by simp
  then show ?thesis by (rule names_variable)
qed

text \<open>
  C1. For every environment, each key-presence check passes exactly when its variable
  (\<open>OPENAI_API_KEY\<close> for the one, \<open>ANTHROPIC_API_KEY\<close> for the other) is bound to a
  non-empty value; whenever it does not pass, it ends in an AssertionError whose message
  contains the name of that variable.
\<close>

theorem key_present_iff_nonempty:
  "(fst (test_openai_key_present s) = Passed
      \<longleftrightarrow> (\<exists>v. environ s ''OPENAI_API_KEY'' = Some v \<and> v \<noteq> []))
   \<and> (fst (test_openai_key_present s) \<noteq> Passed \<longrightarrow>
        (\<exists>p q. fst (test_openai_key_present s)
                  = Raised (AssertionError (p @ ''OPENAI_API_KEY'' @ q))))
   \<and> (fst (test_anthropic_key_present s) = Passed
      \<longleftrightarrow> (\<exists>v. environ s ''ANTHROPIC_API_KEY'' = Some v \<and> v \<noteq> []))
   \<and> (fst (test_anthropic_key_present s) \<noteq> Passed \<longrightarrow>
        (\<exists>p q. fst (test_anthropic_key_present s)
                  = Raised (AssertionError (p @ ''ANTHROPIC_API_KEY'' @ q))))"
  apply (intro conjI impI)
     apply (rule openai_key_present_passes)
    apply (erule openai_key_present_fails)
   apply (rule anthropic_key_present_passes)
  apply (erule anthropic_key_present_fails)
  done

theorem key_present_iff_nonempty_witness:
  "fst (test_openai_key_present empty_openai_key) \<noteq> Passed
   \<and> (\<exists>p q. fst (test_openai_key_present empty_openai_key)
               = Raised (AssertionError (p @ ''OPENAI_API_KEY'' @ q)))
   \<and> fst (test_anthropic_key_present no_keys) \<noteq> Passed
   \<and> (\<exists>p q. fst (test_anthropic_key_present no_keys)
               = Raised (AssertionError (p @ ''ANTHROPIC_API_KEY'' @ q)))"
proof -
  have o: "fst (test_openai_key_present empty_openai_key) \<noteq> Passed"
    by (simp add: test_openai_key_present_def getenv_def empty_openai_key_def)
  have a: "fst (test_anthropic_key_present no_keys) \<noteq> Passed"
    by (simp add: test_anthropic_key_present_def getenv_def no_keys_def)
  note t1 = key_present_iff_nonempty [of empty_openai_key]
  note t2 = key_present_iff_nonempty [of no_keys]
  from t1 have o': "fst (test_openai_key_present empty_openai_key) \<noteq> Passed \<longrightarrow>
        (\<exists>p q. fst (test_openai_key_present empty_openai_key)
                  = Raised (AssertionError (p @ ''OPENAI_API_KEY'' @ q)))"
    by (elim conjE)
  from t2 have a': "fst (test_anthropic_key_present no_keys) \<noteq> Passed \<longrightarrow>
        (\<exists>p q. fst (test_anthropic_key_present no_keys)
                  = Raised (AssertionError (p @ ''ANTHROPIC_API_KEY'' @ q)))"
    by (elim conjE)
  from o o' have o'': "\<exists>p q. fst (test_openai_key_present empty_openai_key)
               = Raised (AssertionError (p @ ''OPENAI_API_KEY'' @ q))" by (rule rev_mp)
  from a a' have a'': "\<exists>p q. fst (test_anthropic_key_present no_keys)
               = Raised (AssertionError (p @ ''ANTHROPIC_API_KEY'' @ q))" by (rule rev_mp)
  from o o'' a a'' show ?thesis by (intro conjI)
qed

subsection \<open>Call checks: the request and the result contract\<close>

lemma assert_OK_in_content_Passed:
  "assert_OK_in_content c = Passed \<longleftrightarrow> (\<exists>t p q. c = Some t \<and> t = p @ ''OK'' @ q)"
proof (cases c)
  case None
  then show ?thesis by simp
next
  case (Some t)
  have "str_in ''OK'' t \<longleftrightarrow> (\<exists>p q. t = p @ ''OK'' @ q)" by (rule str_in_iff)
  with Some show ?thesis by simp
qed

lemma first_choice_content_Inr:
  "first_choice_content resp = Inr c
     \<longleftrightarrow> (\<exists>rest. resp = ChatCompletion (Choice (ChatCompletionMessage c) # rest))"
  by (cases resp rule: first_choice_content.cases) auto

lemma openai_response_contract:
  "(case first_choice_content resp of Inl e \<Rightarrow> Raised e | Inr c \<Rightarrow> assert_OK_in_content c) = Passed
     \<longleftrightarrow> (\<exists>t rest p q. resp = ChatCompletion (Choice (ChatCompletionMessage (Some t)) # rest)
                        \<and> t = p @ ''OK'' @ q)"
proof (cases "first_choice_content resp")
  case (Inl e)
  then have "\<not> (\<exists>c. first_choice_content resp = Inr c)" by simp
  then have "\<not> (\<exists>c rest. resp = ChatCompletion (Choice (ChatCompletionMessage c) # rest))"
    by (simp add: first_choice_content_Inr)
  with Inl show ?thesis by auto
next
  case (Inr c)
  then obtain rest where r: "resp = ChatCompletion (Choice (ChatCompletionMessage c) # rest)"
    by (auto simp: first_choice_content_Inr)
  from Inr have "(case first_choice_content resp of Inl e \<Rightarrow> Raised e | Inr c \<Rightarrow> assert_OK_in_content c)
      = assert_OK_in_content c" by simp
  moreover have "(\<exists>t rest p q. resp = ChatCompletion (Choice (ChatCompletionMessage (Some t)) # rest)
                        \<and> t = p @ ''OK'' @ q) \<longleftrightarrow> (\<exists>t p q. c = Some t \<and> t = p @ ''OK'' @ q)"
    using r by auto
  ultimately show ?thesis by (simp only: assert_OK_in_content_Passed)
qed

lemma test_openai_call_with_client:
  assumes "import_openai py (environ s) = Inr openai" and "OpenAI openai = Inr new"
    and "new (environ s) = Inr client"
  shows "test_openai_call py s =
     (case chat_completions_create openai client
             \<lparr>model = ''gpt-4o-mini'',
              messages = [\<lparr>role = ''user'', content = ''Say OK''\<rparr>],
              max_tokens = 5\<rparr> of
        Inl e \<Rightarrow> Raised e
      | Inr resp \<Rightarrow>
          (case first_choice_content resp of Inl e \<Rightarrow> Raised e | Inr c \<Rightarrow> assert_OK_in_content c),
      s\<lparr>issued := issued s @ [ChatCompletionsCreate
             \<lparr>model = ''gpt-4o-mini'',
              messages = [\<lparr>role = ''user'', content = ''Say OK''\<rparr>],
              max_tokens = 5\<rparr>]\<rparr>)"
  using assms by (simp add: test_openai_call_def getenv_def Let_def split: sum.splits)

text \<open>
  C2. Once the OpenAI call-check has its client (the import and the constructor returned),
  it hands the client exactly one chat-completion request: model "gpt-4o-mini", the
  single message of role "user" and content "Say OK", and \<open>max_tokens\<close> 5. Given any
  response to it, the check passes exactly when the response has a first choice whose
  message content is a text that contains "OK".
\<close>

theorem openai_call_request_and_contract:
  assumes "import_openai py (environ s) = Inr openai" and "OpenAI openai = Inr new"
    and "new (environ s) = Inr client"
  shows "issued (snd (test_openai_call py s))
           = issued s @ [ChatCompletionsCreate
               \<lparr>model = ''gpt-4o-mini'',
                messages = [\<lparr>role = ''user'', content = ''Say OK''\<rparr>],
                max_tokens = 5\<rparr>]
     \<and> (\<forall>resp. chat_completions_create openai client
                 \<lparr>model = ''gpt-4o-mini'',
                  messages = [\<lparr>role = ''user'', content = ''Say OK''\<rparr>],
                  max_tokens = 5\<rparr> = Inr resp \<longrightarrow>
          (fst (test_openai_call py s) = Passed
             \<longleftrightarrow> (\<exists>t rest p q.
                    resp = ChatCompletion (Choice (ChatCompletionMessage (Some t)) # rest)
                    \<and> t = p @ ''OK'' @ q)))"
proof (intro conjI allI impI)
  show "issued (snd (test_openai_call py s))
           = issued s @ [ChatCompletionsCreate
               \<lparr>model = ''gpt-4o-mini'',
                messages = [\<lparr>role = ''user'', content = ''Say OK''\<rparr>],
                max_tokens = 5\<rparr>]"
    by (simp add: test_openai_call_with_client [OF assms])
next
  fix resp
  assume "chat_completions_create openai client
                 \<lparr>model = ''gpt-4o-mini'',
                  messages = [\<lparr>role = ''user'', content = ''Say OK''\<rparr>],
                  max_tokens = 5\<rparr> = Inr resp"
  then have "fst (test_openai_call py s)
      = (case first_choice_content resp of Inl e \<Rightarrow> Raised e | Inr c \<Rightarrow> assert_OK_in_content c)"
    by (simp add: test_openai_call_with_client [OF assms])
  then show "fst (test_openai_call py s) = Passed
             \<longleftrightarrow> (\<exists>t rest p q.
                    resp = ChatCompletion (Choice (ChatCompletionMessage (Some t)) # rest)
                    \<and> t = p @ ''OK'' @ q)"
    by (simp only: openai_response_contract)
qed

theorem openai_call_request_and_contract_witness:
  "issued (snd (test_openai_call echo_py both_keys))
     = [ChatCompletionsCreate
          \<lparr>model = ''gpt-4o-mini'',
           messages = [\<lparr>role = ''user'', content = ''Say OK''\<rparr>],
           max_tokens = 5\<rparr>]
   \<and> fst (test_openai_call echo_py both_keys) = Passed"
proof -
  have h1: "import_openai echo_py (environ both_keys) = Inr echo_openai" by (simp add: echo_py_def)
  have h2: "OpenAI echo_openai = Inr (\<lambda>env. Inr (env ''OPENAI_API_KEY''))"
    by (simp add: echo_openai_def)
  have h3: "(\<lambda>env. Inr (env ''OPENAI_API_KEY'')) (environ both_keys) = Inr (Some ''sk-test'')"
    by (simp add: both_keys_def)
  note t = openai_call_request_and_contract [OF h1 h2 h3]
  have r: "chat_completions_create echo_openai (Some ''sk-test'')
             \<lparr>model = ''gpt-4o-mini'',
              messages = [\<lparr>role = ''user'', content = ''Say OK''\<rparr>],
              max_tokens = 5\<rparr>
           = Inr (ChatCompletion [Choice (ChatCompletionMessage (Some ''OK''))])"
    by (simp add: echo_openai_def)
  have ok: "''OK'' = [] @ ''OK'' @ []" by simp
  have ex: "\<exists>t rest p q. ChatCompletion [Choice (ChatCompletionMessage (Some ''OK''))]
               = ChatCompletion (Choice (ChatCompletionMessage (Some t)) # rest)
             \<and> t = p @ ''OK'' @ q"
    using ok by blast
  from t have "issued (snd (test_openai_call echo_py both_keys))
     = issued both_keys @ [ChatCompletionsCreate
          \<lparr>model = ''gpt-4o-mini'',
           messages = [\<lparr>role = ''user'', content = ''Say OK''\<rparr>],
           max_tokens = 5\<rparr>]" by (rule conjunct1)
  then have a: "issued (snd (test_openai_call echo_py both_keys))
     = [ChatCompletionsCreate
          \<lparr>model = ''gpt-4o-mini'',
           messages = [\<lparr>role = ''user'', content = ''Say OK''\<rparr>],
           max_tokens = 5\<rparr>]" by (simp add: both_keys_def)
  from t r ex have b: "fst (test_openai_call echo_py both_keys) = Passed" by blast
  from a b show ?thesis by (rule conjI)
qed

lemma first_block_text_Inr:
  "first_block_text resp = Inr t \<longleftrightarrow> (\<exists>rest. resp = Message (TextBlock t # rest))"
  by (cases resp rule: first_block_text.cases) auto

lemma anthropic_response_contract:
  "(case first_block_text resp of Inl e \<Rightarrow> Raised e | Inr t \<Rightarrow> assert_OK_in_content (Some t)) = Passed
     \<longleftrightarrow> (\<exists>t rest p q. resp = Message (TextBlock t # rest) \<and> t = p @ ''OK'' @ q)"
proof (cases "first_block_text resp")
  case (Inl e)
  then have "\<not> (\<exists>t. first_block_text resp = Inr t)" by simp
  then have "\<not> (\<exists>t rest. resp = Message (TextBlock t # rest))"
    by (simp add: first_block_text_Inr)
  with Inl show ?thesis by auto
next
  case (Inr t)
  then obtain rest where r: "resp = Message (TextBlock t # rest)"
    by (auto simp: first_block_text_Inr)
  from Inr have "(case first_block_text resp of Inl e \<Rightarrow> Raised e
                   | Inr t \<Rightarrow> assert_OK_in_content (Some t))
      = assert_OK_in_content (Some t)" by simp
  moreover have "(\<exists>u rest p q. resp = Message (TextBlock u # rest) \<and> u = p @ ''OK'' @ q)
      \<longleftrightarrow> (\<exists>u p q. Some t = Some u \<and> u = p @ ''OK'' @ q)"
    using r by auto
  ultimately show ?thesis by (simp only: assert_OK_in_content_Passed)
qed

lemma test_anthropic_call_with_client:
  assumes "import_anthropic py (environ s) = Inr anthropic" and "Anthropic anthropic = Inr new"
    and "new (environ s) = Inr client"
  shows "test_anthropic_call py s =
     (case messages_create anthropic client
             \<lparr>model = ''claude-3-haiku-20240307'',
              messages = [\<lparr>role = ''user'', content = ''Say OK''\<rparr>],
              max_tokens = 5\<rparr> of
        Inl e \<Rightarrow> Raised e
      | Inr resp \<Rightarrow>
          (case first_block_text resp of Inl e \<Rightarrow> Raised e
           | Inr t \<Rightarrow> assert_OK_in_content (Some t)),
      s\<lparr>issued := issued s @ [MessagesCreate
             \<lparr>model = ''claude-3-haiku-20240307'',
              messages = [\<lparr>role = ''user'', content = ''Say OK''\<rparr>],
              max_tokens = 5\<rparr>]\<rparr>)"
  using assms by (simp add: test_anthropic_call_def getenv_def Let_def split: sum.splits)

text \<open>
  C3. Once the Anthropic call-check has its client, it hands the client exactly one
  message-creation request: the fixed model "claude-3-haiku-20240307", the single message
  of role "user" and content "Say OK", and \<open>max_tokens\<close> 5. Given any response to it, the
  check passes exactly when the response has a first content block that is a text block
  whose text contains "OK".
\<close>

theorem anthropic_call_request_and_contract:
  assumes "import_anthropic py (environ s) = Inr anthropic" and "Anthropic anthropic = Inr new"
    and "new (environ s) = Inr client"
  shows "issued (snd (test_anthropic_call py s))
           = issued s @ [MessagesCreate
               \<lparr>model = ''claude-3-haiku-20240307'',
                messages = [\<lparr>role = ''user'', content = ''Say OK''\<rparr>],
                max_tokens = 5\<rparr>]
     \<and> (\<forall>resp. messages_create anthropic client
                 \<lparr>model = ''claude-3-haiku-20240307'',
                  messages = [\<lparr>role = ''user'', content = ''Say OK''\<rparr>],
                  max_tokens = 5\<rparr> = Inr resp \<longrightarrow>
          (fst (test_anthropic_call py s) = Passed
             \<longleftrightarrow> (\<exists>t rest p q. resp = Message (TextBlock t # rest) \<and> t = p @ ''OK'' @ q)))"
proof (intro conjI allI impI)
  show "issued (snd (test_anthropic_call py s))
           = issued s @ [MessagesCreate
               \<lparr>model = ''claude-3-haiku-20240307'',
                messages = [\<lparr>role = ''user'', content = ''Say OK''\<rparr>],
                max_tokens = 5\<rparr>]"
    by (simp add: test_anthropic_call_with_client [OF assms])
next
  fix resp
  assume "messages_create anthropic client
                 \<lparr>model = ''claude-3-haiku-20240307'',
                  messages = [\<lparr>role = ''user'', content = ''Say OK''\<rparr>],
                  max_tokens = 5\<rparr> = Inr resp"
  then have "fst (test_anthropic_call py s)
      = (case first_block_text resp of Inl e \<Rightarrow> Raised e
         | Inr t \<Rightarrow> assert_OK_in_content (Some t))"
    by (simp add: test_anthropic_call_with_client [OF assms])
  then show "fst (test_anthropic_call py s) = Passed
             \<longleftrightarrow> (\<exists>t rest p q. resp = Message (TextBlock t # rest) \<and> t = p @ ''OK'' @ q)"
    by (simp only: anthropic_response_contract)
qed

theorem anthropic_call_request_and_contract_witness:
  "issued (snd (test_anthropic_call echo_py both_keys))
     = [MessagesCreate
          \<lparr>model = ''claude-3-haiku-20240307'',
           messages = [\<lparr>role = ''user'', content = ''Say OK''\<rparr>],
           max_tokens = 5\<rparr>]
   \<and> fst (test_anthropic_call echo_py both_keys) = Passed"
proof -
  have h1: "import_anthropic echo_py (environ both_keys) = Inr echo_anthropic" by (simp add: echo_py_def)
  have h2: "Anthropic echo_anthropic = Inr (\<lambda>env. Inr (env ''ANTHROPIC_API_KEY''))"
    by (simp add: echo_anthropic_def)
  have h3: "(\<lambda>env. Inr (env ''ANTHROPIC_API_KEY'')) (environ both_keys)
              = Inr (Some ''sk-ant-test'')"
    by (simp add: both_keys_def)
  note t = anthropic_call_request_and_contract [OF h1 h2 h3]
  have r: "messages_create echo_anthropic (Some ''sk-ant-test'')
             \<lparr>model = ''claude-3-haiku-20240307'',
              messages = [\<lparr>role = ''user'', content = ''Say OK''\<rparr>],
              max_tokens = 5\<rparr>
           = Inr (Message [TextBlock ''OK''])"
    by (simp add: echo_anthropic_def)
  have ok: "''OK'' = [] @ ''OK'' @ []" by simp
  have ex: "\<exists>t rest p q. Message [TextBlock ''OK''] = Message (TextBlock t # rest)
             \<and> t = p @ ''OK'' @ q"
    using ok by blast
  from t have "issued (snd (test_anthropic_call echo_py both_keys))
     = issued both_keys @ [MessagesCreate
          \<lparr>model = ''claude-3-haiku-20240307'',
           messages = [\<lparr>role = ''user'', content = ''Say OK''\<rparr>],
           max_tokens = 5\<rparr>]" by (rule conjunct1)
  then have a: "issued (snd (test_anthropic_call echo_py both_keys))
     = [MessagesCreate
          \<lparr>model = ''claude-3-haiku-20240307'',
           messages = [\<lparr>role = ''user'', content = ''Say OK''\<rparr>],
           max_tokens = 5\<rparr>]" by (simp add: both_keys_def)
  from t r ex have b: "fst (test_anthropic_call echo_py both_keys) = Passed" by blast
  from a b show ?thesis by (rule conjI)
qed

subsection \<open>Call checks: errors\<close>

text \<open>
  C7. Whatever a provider package raises during a call-check leaves the check unchanged as
  the check's failure: the error of the import, of the name lookup, of the constructor and
  of \<open>create\<close> each end the check at once with that very exception, and the error a
  malformed response causes when its first text is read does the same. Nothing is retried
  and no other provider is asked: an error before \<open>create\<close> leaves the issued requests as
  they were, an error of \<open>create\<close> or after it leaves exactly the one request.
\<close>

theorem call_checks_propagate_errors:
  "(\<forall>e. import_openai py (environ s) = Inl e \<longrightarrow> test_openai_call py s = (Raised e, s))
   \<and> (\<forall>openai e. import_openai py (environ s) = Inr openai \<and> OpenAI openai = Inl e \<longrightarrow>
          test_openai_call py s = (Raised e, s))
   \<and> (\<forall>openai new e. import_openai py (environ s) = Inr openai \<and> OpenAI openai = Inr new
          \<and> new (environ s) = Inl e \<longrightarrow>
          test_openai_call py s = (Raised e, s))
   \<and> (\<forall>openai new client e resp. import_openai py (environ s) = Inr openai \<and> OpenAI openai = Inr new
          \<and> new (environ s) = Inr client
          \<and> (chat_completions_create openai client
                \<lparr>model = ''gpt-4o-mini'',
                 messages = [\<lparr>role = ''user'', content = ''Say OK''\<rparr>],
                 max_tokens = 5\<rparr> = Inl e
              \<or> chat_completions_create openai client
                \<lparr>model = ''gpt-4o-mini'',
                 messages = [\<lparr>role = ''user'', content = ''Say OK''\<rparr>],
                 max_tokens = 5\<rparr> = Inr resp \<and> first_choice_content resp = Inl e) \<longrightarrow>
          test_openai_call py s =
            (Raised e, s\<lparr>issued := issued s @ [ChatCompletionsCreate
                \<lparr>model = ''gpt-4o-mini'',
                 messages = [\<lparr>role = ''user'', content = ''Say OK''\<rparr>],
                 max_tokens = 5\<rparr>]\<rparr>))
   \<and> (\<forall>e. import_anthropic py (environ s) = Inl e \<longrightarrow> test_anthropic_call py s = (Raised e, s))
   \<and> (\<forall>anthropic e. import_anthropic py (environ s) = Inr anthropic \<and> Anthropic anthropic = Inl e \<longrightarrow>
          test_anthropic_call py s = (Raised e, s))
   \<and> (\<forall>anthropic new e. import_anthropic py (environ s) = Inr anthropic \<and> Anthropic anthropic = Inr new
          \<and> new (environ s) = Inl e \<longrightarrow>
          test_anthropic_call py s = (Raised e, s))
   \<and> (\<forall>anthropic new client e resp. import_anthropic py (environ s) = Inr anthropic
          \<and> Anthropic anthropic = Inr new
          \<and> new (environ s) = Inr client
          \<and> (messages_create anthropic client
                \<lparr>model = ''claude-3-haiku-20240307'',
                 messages = [\<lparr>role = ''user'', content = ''Say OK''\<rparr>],
                 max_tokens = 5\<rparr> = Inl e
              \<or> messages_create anthropic client
                \<lparr>model = ''claude-3-haiku-20240307'',
                 messages = [\<lparr>role = ''user'', content = ''Say OK''\<rparr>],
                 max_tokens = 5\<rparr> = Inr resp \<and> first_block_text resp = Inl e) \<longrightarrow>
          test_anthropic_call py s =
            (Raised e, s\<lparr>issued := issued s @ [MessagesCreate
                \<lparr>model = ''claude-3-haiku-20240307'',
                 messages = [\<lparr>role = ''user'', content = ''Say OK''\<rparr>],
                 max_tokens = 5\<rparr>]\<rparr>))"
proof (intro conjI allI impI)
  fix e assume "import_openai py (environ s) = Inl e"
  then show "test_openai_call py s = (Raised e, s)" by (simp add: test_openai_call_def)
next
  fix openai e assume "import_openai py (environ s) = Inr openai \<and> OpenAI openai = Inl e"
  then show "test_openai_call py s = (Raised e, s)" by (simp add: test_openai_call_def)
next
  fix openai new e
  assume "import_openai py (environ s) = Inr openai \<and> OpenAI openai = Inr new
          \<and> new (environ s) = Inl e"
  then show "test_openai_call py s = (Raised e, s)"
    by (simp add: test_openai_call_def getenv_def)
next
  fix openai new client e resp
  assume a: "import_openai py (environ s) = Inr openai \<and> OpenAI openai = Inr new
          \<and> new (environ s) = Inr client
          \<and> (chat_completions_create openai client
                \<lparr>model = ''gpt-4o-mini'',
                 messages = [\<lparr>role = ''user'', content = ''Say OK''\<rparr>],
                 max_tokens = 5\<rparr> = Inl e
              \<or> chat_completions_create openai client
                \<lparr>model = ''gpt-4o-mini'',
                 messages = [\<lparr>role = ''user'', content = ''Say OK''\<rparr>],
                 max_tokens = 5\<rparr> = Inr resp \<and> first_choice_content resp = Inl e)"
  then have h: "import_openai py (environ s) = Inr openai" "OpenAI openai = Inr new"
    "new (environ s) = Inr client" by simp_all
  from a show "test_openai_call py s =
            (Raised e, s\<lparr>issued := issued s @ [ChatCompletionsCreate
                \<lparr>model = ''gpt-4o-mini'',
                 messages = [\<lparr>role = ''user'', content = ''Say OK''\<rparr>],
                 max_tokens = 5\<rparr>]\<rparr>)"
    unfolding test_openai_call_with_client [OF h] by auto
next
  fix e assume "import_anthropic py (environ s) = Inl e"
  then show "test_anthropic_call py s = (Raised e, s)" by (simp add: test_anthropic_call_def)
next
  fix anthropic e assume "import_anthropic py (environ s) = Inr anthropic \<and> Anthropic anthropic = Inl e"
  then show "test_anthropic_call py s = (Raised e, s)" by (simp add: test_anthropic_call_def)
next
  fix anthropic new e
  assume "import_anthropic py (environ s) = Inr anthropic \<and> Anthropic anthropic = Inr new
          \<and> new (environ s) = Inl e"
  then show "test_anthropic_call py s = (Raised e, s)"
    by (simp add: test_anthropic_call_def getenv_def)
next
  fix anthropic new client e resp
  assume a: "import_anthropic py (environ s) = Inr anthropic
          \<and> Anthropic anthropic = Inr new
          \<and> new (environ s) = Inr client
          \<and> (messages_create anthropic client
                \<lparr>model = ''claude-3-haiku-20240307'',
                 messages = [\<lparr>role = ''user'', content = ''Say OK''\<rparr>],
                 max_tokens = 5\<rparr> = Inl e
              \<or> messages_create anthropic client
                \<lparr>model = ''claude-3-haiku-20240307'',
                 messages = [\<lparr>role = ''user'', content = ''Say OK''\<rparr>],
                 max_tokens = 5\<rparr> = Inr resp \<and> first_block_text resp = Inl e)"
  then have h: "import_anthropic py (environ s) = Inr anthropic" "Anthropic anthropic = Inr new"
    "new (environ s) = Inr client" by simp_all
  from a show "test_anthropic_call py s =
            (Raised e, s\<lparr>issued := issued s @ [MessagesCreate
                \<lparr>model = ''claude-3-haiku-20240307'',
                 messages = [\<lparr>role = ''user'', content = ''Say OK''\<rparr>],
                 max_tokens = 5\<rparr>]\<rparr>)"
    unfolding test_anthropic_call_with_client [OF h] by auto
qed

theorem call_checks_propagate_errors_witness:
  "test_openai_call keyed_py empty_openai_key =
     (Raised (Exception ''AuthenticationError'' ''Incorrect API key provided''),
      empty_openai_key\<lparr>issued := issued empty_openai_key @ [ChatCompletionsCreate
                \<lparr>model = ''gpt-4o-mini'',
                 messages = [\<lparr>role = ''user'', content = ''Say OK''\<rparr>],
                 max_tokens = 5\<rparr>]\<rparr>)
   \<and> test_openai_call keyed_py no_keys =
     (Raised (Exception ''OpenAIError'' ''The api_key client option must be set''), no_keys)
   \<and> test_anthropic_call no_anthropic_py both_keys
       = (Raised ModuleNotFoundError_anthropic, both_keys)"
proof -
  note t1 = call_checks_propagate_errors [of keyed_py empty_openai_key]
  note t2 = call_checks_propagate_errors [of keyed_py no_keys]
  note t3 = call_checks_propagate_errors [of no_anthropic_py both_keys]
  note c4 = t1 [THEN conjunct2, THEN conjunct2, THEN conjunct2, THEN conjunct1, rule_format]
  note c3 = t2 [THEN conjunct2, THEN conjunct2, THEN conjunct1, rule_format]
  note c5 = t3 [THEN conjunct2, THEN conjunct2, THEN conjunct2, THEN conjunct2,
                THEN conjunct1, rule_format]
  have h4: "import_openai keyed_py (environ empty_openai_key) = Inr keyed_openai \<and>
      OpenAI keyed_openai = Inr (\<lambda>env. case env ''OPENAI_API_KEY'' of
                 None \<Rightarrow> Inl (Exception ''OpenAIError'' ''The api_key client option must be set'')
               | Some v \<Rightarrow> Inr (Some v)) \<and>
      (\<lambda>env. case env ''OPENAI_API_KEY'' of
                 None \<Rightarrow> Inl (Exception ''OpenAIError'' ''The api_key client option must be set'')
               | Some v \<Rightarrow> Inr (Some v)) (environ empty_openai_key) = Inr (Some []) \<and>
      (chat_completions_create keyed_openai (Some [])
                \<lparr>model = ''gpt-4o-mini'',
                 messages = [\<lparr>role = ''user'', content = ''Say OK''\<rparr>],
                 max_tokens = 5\<rparr>
         = Inl (Exception ''AuthenticationError'' ''Incorrect API key provided'')
       \<or> chat_completions_create keyed_openai (Some [])
                \<lparr>model = ''gpt-4o-mini'',
                 messages = [\<lparr>role = ''user'', content = ''Say OK''\<rparr>],
                 max_tokens = 5\<rparr> = Inr (ChatCompletion [])
         \<and> first_choice_content (ChatCompletion [])
             = Inl (Exception ''AuthenticationError'' ''Incorrect API key provided''))"
    by (simp add: keyed_py_def keyed_openai_def empty_openai_key_def)
  have h3: "import_openai keyed_py (environ no_keys) = Inr keyed_openai \<and>
      OpenAI keyed_openai = Inr (\<lambda>env. case env ''OPENAI_API_KEY'' of
                 None \<Rightarrow> Inl (Exception ''OpenAIError'' ''The api_key client option must be set'')
               | Some v \<Rightarrow> Inr (Some v)) \<and>
      (\<lambda>env. case env ''OPENAI_API_KEY'' of
                 None \<Rightarrow> Inl (Exception ''OpenAIError'' ''The api_key client option must be set'')
               | Some v \<Rightarrow> Inr (Some v)) (environ no_keys)
        = Inl (Exception ''OpenAIError'' ''The api_key client option must be set'')"
    by (simp add: keyed_py_def keyed_openai_def no_keys_def)
  have h5: "import_anthropic no_anthropic_py (environ both_keys) = Inl ModuleNotFoundError_anthropic"
    by (simp add: no_anthropic_py_def)
  from c4 [OF h4] c3 [OF h3] c5 [OF h5] show ?thesis by (intro conjI)
qed

subsection \<open>Call checks and missing keys\<close>

lemma test_openai_call_without_client:
  "import_openai py (environ s) = Inl e \<Longrightarrow> fst (test_openai_call py s) \<noteq> Passed"
  "import_openai py (environ s) = Inr openai \<Longrightarrow> OpenAI openai = Inl e \<Longrightarrow>
     fst (test_openai_call py s) \<noteq> Passed"
  "import_openai py (environ s) = Inr openai \<Longrightarrow> OpenAI openai = Inr new \<Longrightarrow>
     new (environ s) = Inl e \<Longrightarrow> fst (test_openai_call py s) \<noteq> Passed"
  by (simp_all add: test_openai_call_def getenv_def)

lemma test_anthropic_call_without_client:
  "import_anthropic py (environ s) = Inl e \<Longrightarrow> fst (test_anthropic_call py s) \<noteq> Passed"
  "import_anthropic py (environ s) = Inr anthropic \<Longrightarrow> Anthropic anthropic = Inl e \<Longrightarrow>
     fst (test_anthropic_call py s) \<noteq> Passed"
  "import_anthropic py (environ s) = Inr anthropic \<Longrightarrow> Anthropic anthropic = Inr new \<Longrightarrow>
     new (environ s) = Inl e \<Longrightarrow> fst (test_anthropic_call py s) \<noteq> Passed"
  by (simp_all add: test_anthropic_call_def getenv_def)

lemma key_present_fails_iff:
  "fst (test_openai_key_present s) \<noteq> Passed \<longleftrightarrow> \<not> truthy (environ s ''OPENAI_API_KEY'')"
  "fst (test_anthropic_key_present s) \<noteq> Passed \<longleftrightarrow> \<not> truthy (environ s ''ANTHROPIC_API_KEY'')"
  by (simp_all add: test_openai_key_present_def test_anthropic_key_present_def getenv_def)

text \<open>
  C4, as the code has it. Neither call-check reads its key or asks the presence check:
  with a package that builds a client from no key and answers "OK", the call-check passes
  in an environment where the presence check fails.
\<close>

theorem call_check_passes_without_key_counterexample:
  "fst (test_openai_key_present no_keys) \<noteq> Passed
   \<and> fst (test_openai_call echo_py no_keys) = Passed
   \<and> fst (test_anthropic_key_present no_keys) \<noteq> Passed
   \<and> fst (test_anthropic_call echo_py no_keys) = Passed"
proof (intro conjI)
  show "fst (test_openai_key_present no_keys) \<noteq> Passed"
    by (simp add: key_present_fails_iff no_keys_def)
  show "fst (test_anthropic_key_present no_keys) \<noteq> Passed"
    by (simp add: key_present_fails_iff no_keys_def)
  show "fst (test_openai_call echo_py no_keys) = Passed"
    by (simp add: test_openai_call_def echo_py_def echo_openai_def no_keys_def)
  show "fst (test_anthropic_call echo_py no_keys) = Passed"
    by (simp add: test_anthropic_call_def echo_py_def echo_anthropic_def no_keys_def)
qed

text \<open>
  C4, amended. In every environment in which a provider's key-presence check fails, that
  provider's call-check does not pass, provided the provider's package refuses a missing
  key: whenever the environment holds no value or the empty string for the key and the
  constructor still returns a client, \<open>create\<close> raises on the check's request for that
  client.
\<close>

theorem call_check_fails_without_key_if_package_refuses:
  "(fst (test_openai_key_present s) \<noteq> Passed
      \<and> (\<forall>env openai new client.
            \<not> truthy (env ''OPENAI_API_KEY'')
            \<and> import_openai py env = Inr openai \<and> OpenAI openai = Inr new
            \<and> new env = Inr client \<longrightarrow>
            (\<exists>e. chat_completions_create openai client
                    \<lparr>model = ''gpt-4o-mini'',
                     messages = [\<lparr>role = ''user'', content = ''Say OK''\<rparr>],
                     max_tokens = 5\<rparr> = Inl e))
      \<longrightarrow> fst (test_openai_call py s) \<noteq> Passed)
   \<and> (fst (test_anthropic_key_present s) \<noteq> Passed
      \<and> (\<forall>env anthropic new client.
            \<not> truthy (env ''ANTHROPIC_API_KEY'')
            \<and> import_anthropic py env = Inr anthropic \<and> Anthropic anthropic = Inr new
            \<and> new env = Inr client \<longrightarrow>
            (\<exists>e. messages_create anthropic client
                    \<lparr>model = ''claude-3-haiku-20240307'',
                     messages = [\<lparr>role = ''user'', content = ''Say OK''\<rparr>],
                     max_tokens = 5\<rparr> = Inl e))
      \<longrightarrow> fst (test_anthropic_call py s) \<noteq> Passed)"
proof (intro conjI impI)
  assume a: "fst (test_openai_key_present s) \<noteq> Passed
      \<and> (\<forall>env openai new client.
            \<not> truthy (env ''OPENAI_API_KEY'')
            \<and> import_openai py env = Inr openai \<and> OpenAI openai = Inr new
            \<and> new env = Inr client \<longrightarrow>
            (\<exists>e. chat_completions_create openai client
                    \<lparr>model = ''gpt-4o-mini'',
                     messages = [\<lparr>role = ''user'', content = ''Say OK''\<rparr>],
                     max_tokens = 5\<rparr> = Inl e))"
  then have k: "\<not> truthy (environ s ''OPENAI_API_KEY'')"
    by (simp add: key_present_fails_iff)
  from a have refuses: "\<And>env openai new client.
            \<not> truthy (env ''OPENAI_API_KEY'') \<Longrightarrow>
            import_openai py env = Inr openai \<Longrightarrow> OpenAI openai = Inr new
            \<Longrightarrow> new env = Inr client \<Longrightarrow>
            \<exists>e. chat_completions_create openai client
                    \<lparr>model = ''gpt-4o-mini'',
                     messages = [\<lparr>role = ''user'', content = ''Say OK''\<rparr>],
                     max_tokens = 5\<rparr> = Inl e"
    by blast
  show "fst (test_openai_call py s) \<noteq> Passed"
  proof (cases "import_openai py (environ s)")
    case (Inl e)
    then show ?thesis by (rule test_openai_call_without_client)
  next
    case i: (Inr openai)
    show ?thesis
    proof (cases "OpenAI openai")
      case (Inl e)
      with i show ?thesis by (rule test_openai_call_without_client)
    next
      case n: (Inr new)
      show ?thesis
      proof (cases "new (environ s)")
        case (Inl e)
        with i n show ?thesis by (rule test_openai_call_without_client)
      next
        case c: (Inr client)
        from refuses [OF k i n c] obtain e where
          "chat_completions_create openai client
                    \<lparr>model = ''gpt-4o-mini'',
                     messages = [\<lparr>role = ''user'', content = ''Say OK''\<rparr>],
                     max_tokens = 5\<rparr> = Inl e" ..
        then show ?thesis by (simp add: test_openai_call_with_client [OF i n c])
      qed
    qed
  qed
next
  assume a: "fst (test_anthropic_key_present s) \<noteq> Passed
      \<and> (\<forall>env anthropic new client.
            \<not> truthy (env ''ANTHROPIC_API_KEY'')
            \<and> import_anthropic py env = Inr anthropic \<and> Anthropic anthropic = Inr new
            \<and> new env = Inr client \<longrightarrow>
            (\<exists>e. messages_create anthropic client
                    \<lparr>model = ''claude-3-haiku-20240307'',
                     messages = [\<lparr>role = ''user'', content = ''Say OK''\<rparr>],
                     max_tokens = 5\<rparr> = Inl e))"
  then have k: "\<not> truthy (environ s ''ANTHROPIC_API_KEY'')"
    by (simp add: key_present_fails_iff)
  from a have refuses: "\<And>env anthropic new client.
            \<not> truthy (env ''ANTHROPIC_API_KEY'') \<Longrightarrow>
            import_anthropic py env = Inr anthropic \<Longrightarrow> Anthropic anthropic = Inr new
            \<Longrightarrow> new env = Inr client \<Longrightarrow>
            \<exists>e. messages_create anthropic client
                    \<lparr>model = ''claude-3-haiku-20240307'',
                     messages = [\<lparr>role = ''user'', content = ''Say OK''\<rparr>],
                     max_tokens = 5\<rparr> = Inl e"
    by blast
  show "fst (test_anthropic_call py s) \<noteq> Passed"
  proof (cases "import_anthropic py (environ s)")
    case (Inl e)
    then show ?thesis by (rule test_anthropic_call_without_client)
  next
    case i: (Inr anthropic)
    show ?thesis
    proof (cases "Anthropic anthropic")
      case (Inl e)
      with i show ?thesis by (rule test_anthropic_call_without_client)
    next
      case n: (Inr new)
      show ?thesis
      proof (cases "new (environ s)")
        case (Inl e)
        with i n show ?thesis by (rule test_anthropic_call_without_client)
      next
        case c: (Inr client)
        from refuses [OF k i n c] obtain e where
          "messages_create anthropic client
                    \<lparr>model = ''claude-3-haiku-20240307'',
                     messages = [\<lparr>role = ''user'', content = ''Say OK''\<rparr>],
                     max_tokens = 5\<rparr> = Inl e" ..
        then show ?thesis by (simp add: test_anthropic_call_with_client [OF i n c])
      qed
    qed
  qed
qed

theorem call_check_fails_without_key_if_package_refuses_witness:
  "fst (test_openai_key_present empty_openai_key) \<noteq> Passed
   \<and> fst (test_openai_call keyed_py empty_openai_key) \<noteq> Passed
   \<and> fst (test_anthropic_key_present no_keys) \<noteq> Passed
   \<and> fst (test_anthropic_call keyed_py no_keys) \<noteq> Passed"
proof -
  have o: "fst (test_openai_key_present empty_openai_key) \<noteq> Passed"
    by (simp add: key_present_fails_iff empty_openai_key_def)
  have a: "fst (test_anthropic_key_present no_keys) \<noteq> Passed"
    by (simp add: key_present_fails_iff no_keys_def)
  have ro: "\<forall>env openai new client.
            \<not> truthy (env ''OPENAI_API_KEY'')
            \<and> import_openai keyed_py env = Inr openai \<and> OpenAI openai = Inr new
            \<and> new env = Inr client \<longrightarrow>
            (\<exists>e. chat_completions_create openai client
                    \<lparr>model = ''gpt-4o-mini'',
                     messages = [\<lparr>role = ''user'', content = ''Say OK''\<rparr>],
                     max_tokens = 5\<rparr> = Inl e)"
    by (auto simp: keyed_py_def keyed_openai_def split: option.splits)
  have ra: "\<forall>env anthropic new client.
            \<not> truthy (env ''ANTHROPIC_API_KEY'')
            \<and> import_anthropic keyed_py env = Inr anthropic \<and> Anthropic anthropic = Inr new
            \<and> new env = Inr client \<longrightarrow>
            (\<exists>e. messages_create anthropic client
                    \<lparr>model = ''claude-3-haiku-20240307'',
                     messages = [\<lparr>role = ''user'', content = ''Say OK''\<rparr>],
                     max_tokens = 5\<rparr> = Inl e)"
    by (auto simp: keyed_py_def keyed_anthropic_def split: option.splits)
  note t1 = call_check_fails_without_key_if_package_refuses [of empty_openai_key keyed_py,
              THEN conjunct1, rule_format]
  note t2 = call_check_fails_without_key_if_package_refuses [of no_keys keyed_py,
              THEN conjunct2, rule_format]
  from o ro have b: "fst (test_openai_call keyed_py empty_openai_key) \<noteq> Passed"
    by (intro t1 conjI)
  from a ra have c: "fst (test_anthropic_call keyed_py no_keys) \<noteq> Passed"
    by (intro t2 conjI)
  from o b a c show ?thesis by (intro conjI)
qed

subsection \<open>The library-availability check\<close>

lemma test_anthropic_installed_loaded:
  "import_anthropic py (environ s) = Inr m \<Longrightarrow> test_anthropic_installed py s = (Passed, s)"
  by (simp add: test_anthropic_installed_def)

lemma test_anthropic_installed_caught:
  "import_anthropic py (environ s) = Inl (Exception c t) \<Longrightarrow>
     test_anthropic_installed py s =
       (Raised (pytest_fail (''anthropic package not installed in this interpreter: '' @ t)), s)"
  by (simp add: test_anthropic_installed_def)

lemma test_anthropic_installed_uncaught:
  "import_anthropic py (environ s) = Inl (BaseException c t) \<Longrightarrow>
     test_anthropic_installed py s = (Raised (BaseException c t), s)"
  by (simp add: test_anthropic_installed_def)

lemma test_anthropic_installed_reports:
  assumes "import_anthropic py (environ s) = Inl e"
  shows "\<exists>x p q. test_anthropic_installed py s = (Raised x, s) \<and> str x = p @ str e @ q"
proof (cases e)
  case (Exception c t)
  with assms have "test_anthropic_installed py s =
       (Raised (pytest_fail (''anthropic package not installed in this interpreter: '' @ t)), s)"
    by (simp add: test_anthropic_installed_caught)
  moreover have "str (pytest_fail (''anthropic package not installed in this interpreter: '' @ t))
      = ''anthropic package not installed in this interpreter: '' @ str e @ []"
    using Exception by (simp add: pytest_fail_def)
  ultimately show ?thesis by blast
next
  case (BaseException c t)
  with assms have "test_anthropic_installed py s = (Raised e, s)"
    by (simp add: test_anthropic_installed_uncaught)
  moreover have "str e = [] @ str e @ []" by simp
  ultimately show ?thesis by blast
qed

text \<open>
  C6. The library-availability check passes exactly when loading the \<open>anthropic\<close> package
  raises nothing; when loading raises, the check ends in an exception whose text contains
  the text of the load error.
\<close>

theorem anthropic_installed_iff_loads:
  "(fst (test_anthropic_installed py s) = Passed \<longleftrightarrow> (\<exists>m. import_anthropic py (environ s) = Inr m))
   \<and> (\<forall>e. import_anthropic py (environ s) = Inl e \<longrightarrow>
         (\<exists>x p q. fst (test_anthropic_installed py s) = Raised x \<and> str x = p @ str e @ q))"
proof (intro conjI allI impI)
  show "fst (test_anthropic_installed py s) = Passed \<longleftrightarrow> (\<exists>m. import_anthropic py (environ s) = Inr m)"
  proof (cases "import_anthropic py (environ s)")
    case (Inl e)
    from test_anthropic_installed_reports [OF Inl] Inl show ?thesis by auto
  next
    case (Inr m)
    then show ?thesis by (simp add: test_anthropic_installed_loaded)
  qed
next
  fix e assume "import_anthropic py (environ s) = Inl e"
  from test_anthropic_installed_reports [OF this]
  obtain x p q where "test_anthropic_installed py s = (Raised x, s)" and "str x = p @ str e @ q"
    by blast
  then have "fst (test_anthropic_installed py s) = Raised x \<and> str x = p @ str e @ q"
    by simp
  then show "\<exists>x p q. fst (test_anthropic_installed py s) = Raised x \<and> str x = p @ str e @ q"
    by blast
qed

theorem anthropic_installed_iff_loads_witness:
  "fst (test_anthropic_installed no_anthropic_py both_keys) \<noteq> Passed
   \<and> (\<exists>x p q. fst (test_anthropic_installed no_anthropic_py both_keys) = Raised x
          \<and> str x = p @ str ModuleNotFoundError_anthropic @ q)
   \<and> fst (test_anthropic_installed echo_py both_keys) = Passed"
proof -
  have l: "import_anthropic no_anthropic_py (environ both_keys) = Inl ModuleNotFoundError_anthropic"
    by (simp add: no_anthropic_py_def)
  have r: "\<exists>m. import_anthropic echo_py (environ both_keys) = Inr m" by (simp add: echo_py_def)
  note t = anthropic_installed_iff_loads [of no_anthropic_py both_keys]
  note u = anthropic_installed_iff_loads [of echo_py both_keys]
  from t l have a: "fst (test_anthropic_installed no_anthropic_py both_keys) \<noteq> Passed"
    by simp
  from t l have b: "\<exists>x p q. fst (test_anthropic_installed no_anthropic_py both_keys) = Raised x
          \<and> str x = p @ str ModuleNotFoundError_anthropic @ q"
    by blast
  from u r have c: "fst (test_anthropic_installed echo_py both_keys) = Passed"
    by blast
  from a b c show ?thesis by (intro conjI)
qed

text \<open>
  C5, as the code has it. Nothing in the module skips the call-check when the package
  cannot be loaded: in a run of the module without the \<open>anthropic\<close> package the call-check
  is called like every other test function, and fails at its import.
\<close>

theorem anthropic_call_check_attempted_counterexample:
  "import_anthropic no_anthropic_py (environ both_keys) = Inl ModuleNotFoundError_anthropic
   \<and> fst (run_module no_anthropic_py both_keys) =
       [(OpenaiKeyPresent, Passed),
        (OpenaiCall, Passed),
        (AnthropicInstalled,
           Raised (pytest_fail (''anthropic package not installed in this interpreter: ''
                                 @ str ModuleNotFoundError_anthropic))),
        (AnthropicKeyPresent, Passed),
        (AnthropicCall, Raised ModuleNotFoundError_anthropic)]"
proof -
  have i: "import_anthropic no_anthropic_py env = Inl ModuleNotFoundError_anthropic" for env
    by (simp add: no_anthropic_py_def)
  have 1: "test_openai_key_present both_keys = (Passed, both_keys)"
    by (simp add: test_openai_key_present_def getenv_def both_keys_def)
  obtain s2 where 2: "test_openai_call no_anthropic_py both_keys = (Passed, s2)"
    and e2: "environ s2 = environ both_keys"
    by (simp add: test_openai_call_def no_anthropic_py_def echo_openai_def both_keys_def)
  from i have 3: "test_anthropic_installed no_anthropic_py s2 =
      (Raised (pytest_fail (''anthropic package not installed in this interpreter: ''
                             @ str ModuleNotFoundError_anthropic)), s2)"
    by (simp add: test_anthropic_installed_def ModuleNotFoundError_anthropic_def)
  from e2 have 4: "test_anthropic_key_present s2 = (Passed, s2)"
    by (simp add: test_anthropic_key_present_def getenv_def both_keys_def)
  from i have 5: "test_anthropic_call no_anthropic_py s2 = (Raised ModuleNotFoundError_anthropic, s2)"
    by (simp add: test_anthropic_call_def)
  from 1 2 3 4 5 have "fst (run_module no_anthropic_py both_keys) =
       [(OpenaiKeyPresent, Passed),
        (OpenaiCall, Passed),
        (AnthropicInstalled,
           Raised (pytest_fail (''anthropic package not installed in this interpreter: ''
                                 @ str ModuleNotFoundError_anthropic))),
        (AnthropicKeyPresent, Passed),
        (AnthropicCall, Raised ModuleNotFoundError_anthropic)]"
    by (simp add: run_module_def test_functions_def)
  with i show ?thesis by (rule conjI)
qed

text \<open>
  C5, amended. Whenever the \<open>anthropic\<close> package cannot be loaded, the
  library-availability check fails with an exception whose text contains the text of the
  load error and hands no request to any client; the Anthropic call-check is still run,
  and in that environment, whatever was issued before it, it stops at its import with
  that load error: it builds no client and issues no request.
\<close>

theorem anthropic_not_loadable_no_call:
  "import_anthropic py (environ s) = Inl e \<longrightarrow>
     (\<exists>x p q. test_anthropic_installed py s = (Raised x, s) \<and> str x = p @ str e @ q)
     \<and> test_anthropic_call py (s\<lparr>issued := l\<rparr>) = (Raised e, s\<lparr>issued := l\<rparr>)"
proof
  assume l: "import_anthropic py (environ s) = Inl e"
  then have "test_anthropic_call py (s\<lparr>issued := l\<rparr>) = (Raised e, s\<lparr>issued := l\<rparr>)"
    by (simp add: test_anthropic_call_def)
  with test_anthropic_installed_reports [OF l]
  show "(\<exists>x p q. test_anthropic_installed py s = (Raised x, s) \<and> str x = p @ str e @ q)
     \<and> test_anthropic_call py (s\<lparr>issued := l\<rparr>) = (Raised e, s\<lparr>issued := l\<rparr>)"
    by (rule conjI)
qed

theorem anthropic_not_loadable_no_call_witness:
  "(\<exists>x p q. test_anthropic_installed no_anthropic_py both_keys = (Raised x, both_keys)
       \<and> str x = p @ str ModuleNotFoundError_anthropic @ q)
   \<and> test_anthropic_call no_anthropic_py (both_keys\<lparr>issued := []\<rparr>)
       = (Raised ModuleNotFoundError_anthropic, both_keys\<lparr>issued := []\<rparr>)"
proof -
  have l: "import_anthropic no_anthropic_py (environ both_keys) = Inl ModuleNotFoundError_anthropic"
    by (simp add: no_anthropic_py_def)
  from anthropic_not_loadable_no_call [of no_anthropic_py both_keys
         ModuleNotFoundError_anthropic "[]", THEN mp, OF l]
  show ?thesis .
qed

text \<open>
  C10, as the code has it. \<open>except Exception\<close> does not catch what derives from
  \<open>BaseException\<close> alone: a KeyboardInterrupt raised while the package loads leaves the
  check as it is, not as a pytest failure.
\<close>

theorem anthropic_installed_uncaught_counterexample:
  "import_anthropic interrupted_py (environ no_keys) = Inl KeyboardInterrupt
   \<and> fst (test_anthropic_installed interrupted_py no_keys) = Raised KeyboardInterrupt"
  by (simp add: interrupted_py_def KeyboardInterrupt_def test_anthropic_installed_def)

text \<open>
  C10, amended. The library-availability check catches every exception of a class deriving
  from \<open>Exception\<close> that loading the package raises, not only import errors: it ends in
  the failure \<open>pytest.fail\<close> raises, whose message is the fixed prefix followed by the
  text of that exception, and the exception itself does not leave the check.
\<close>

theorem anthropic_installed_catches_Exception:
  "import_anthropic py (environ s) = Inl (Exception c t) \<longrightarrow>
     test_anthropic_installed py s =
       (Raised (pytest_fail (''anthropic package not installed in this interpreter: ''
                              @ str (Exception c t))), s)
     \<and> fst (test_anthropic_installed py s) \<noteq> Raised (Exception c t)"
  by (simp add: test_anthropic_installed_def pytest_fail_def)

theorem anthropic_installed_catches_Exception_witness:
  "test_anthropic_installed no_anthropic_py no_keys =
       (Raised (pytest_fail (''anthropic package not installed in this interpreter: ''
          @ str (Exception ''ModuleNotFoundError'' (''No module named '' @ quoted ''anthropic'')))),
        no_keys)
   \<and> fst (test_anthropic_installed no_anthropic_py no_keys)
        \<noteq> Raised (Exception ''ModuleNotFoundError'' (''No module named '' @ quoted ''anthropic''))"
proof -
  have l: "import_anthropic no_anthropic_py (environ no_keys)
      = Inl (Exception ''ModuleNotFoundError'' (''No module named '' @ quoted ''anthropic''))"
    by (simp add: no_anthropic_py_def ModuleNotFoundError_anthropic_def)
  show ?thesis
    by (rule anthropic_installed_catches_Exception [THEN mp, OF l])
qed

subsection \<open>What a check reads and what it leaves behind\<close>

lemma test_openai_call_raises:
  "import_openai py (environ s) = Inl e \<Longrightarrow> test_openai_call py s = (Raised e, s)"
  "import_openai py (environ s) = Inr openai \<Longrightarrow> OpenAI openai = Inl e \<Longrightarrow>
     test_openai_call py s = (Raised e, s)"
  "import_openai py (environ s) = Inr openai \<Longrightarrow> OpenAI openai = Inr new \<Longrightarrow>
     new (environ s) = Inl e \<Longrightarrow> test_openai_call py s = (Raised e, s)"
  by (simp_all add: test_openai_call_def getenv_def)

lemma test_anthropic_call_raises:
  "import_anthropic py (environ s) = Inl e \<Longrightarrow> test_anthropic_call py s = (Raised e, s)"
  "import_anthropic py (environ s) = Inr anthropic \<Longrightarrow> Anthropic anthropic = Inl e \<Longrightarrow>
     test_anthropic_call py s = (Raised e, s)"
  "import_anthropic py (environ s) = Inr anthropic \<Longrightarrow> Anthropic anthropic = Inr new \<Longrightarrow>
     new (environ s) = Inl e \<Longrightarrow> test_anthropic_call py s = (Raised e, s)"
  by (simp_all add: test_anthropic_call_def getenv_def)

lemma test_openai_call_same:
  assumes imp: "import_openai py (environ s') = import_openai py (environ s)"
    and new: "\<And>openai new. import_openai py (environ s) = Inr openai \<Longrightarrow> OpenAI openai = Inr new
                \<Longrightarrow> new (environ s') = new (environ s)"
  shows "fst (test_openai_call py s) = fst (test_openai_call py s')"
proof (cases "import_openai py (environ s)")
  case (Inl e)
  with imp have "import_openai py (environ s') = Inl e" by simp
  with Inl show ?thesis by (simp add: test_openai_call_raises(1))
next
  case i: (Inr openai)
  with imp have i': "import_openai py (environ s') = Inr openai" by simp
  show ?thesis
  proof (cases "OpenAI openai")
    case (Inl e)
    with i i' show ?thesis by (simp add: test_openai_call_raises(2))
  next
    case n: (Inr new)
    from i n have k: "new (environ s') = new (environ s)" by (rule new)
    show ?thesis
    proof (cases "new (environ s)")
      case (Inl e)
      with k have "new (environ s') = Inl e" by simp
      with i i' n Inl show ?thesis by (simp add: test_openai_call_raises(3))
    next
      case (Inr client)
      with k have "new (environ s') = Inr client" by simp
      with i i' n Inr show ?thesis by (simp add: test_openai_call_with_client)
    qed
  qed
qed

lemma test_anthropic_call_same:
  assumes imp: "import_anthropic py (environ s') = import_anthropic py (environ s)"
    and new: "\<And>anthropic new. import_anthropic py (environ s) = Inr anthropic
                \<Longrightarrow> Anthropic anthropic = Inr new \<Longrightarrow> new (environ s') = new (environ s)"
  shows "fst (test_anthropic_call py s) = fst (test_anthropic_call py s')"
proof (cases "import_anthropic py (environ s)")
  case (Inl e)
  with imp have "import_anthropic py (environ s') = Inl e" by simp
  with Inl show ?thesis by (simp add: test_anthropic_call_raises(1))
next
  case i: (Inr anthropic)
  with imp have i': "import_anthropic py (environ s') = Inr anthropic" by simp
  show ?thesis
  proof (cases "Anthropic anthropic")
    case (Inl e)
    with i i' show ?thesis by (simp add: test_anthropic_call_raises(2))
  next
    case n: (Inr new)
    from i n have k: "new (environ s') = new (environ s)" by (rule new)
    show ?thesis
    proof (cases "new (environ s)")
      case (Inl e)
      with k have "new (environ s') = Inl e" by simp
      with i i' n Inl show ?thesis by (simp add: test_anthropic_call_raises(3))
    next
      case (Inr client)
      with k have "new (environ s') = Inr client" by simp
      with i i' n Inr show ?thesis by (simp add: test_anthropic_call_with_client)
    qed
  qed
qed

lemma test_openai_call_reads:
  assumes "environ s = environ s'"
  shows "fst (test_openai_call py s) = fst (test_openai_call py s')"
  by (rule test_openai_call_same) (simp_all add: assms)

lemma test_anthropic_call_reads:
  assumes "environ s = environ s'"
  shows "fst (test_anthropic_call py s) = fst (test_anthropic_call py s')"
  by (rule test_anthropic_call_same) (simp_all add: assms)

lemma test_anthropic_key_present_reads:
  "environ s ''ANTHROPIC_API_KEY'' = environ s' ''ANTHROPIC_API_KEY'' \<Longrightarrow>
     fst (test_anthropic_key_present s) = fst (test_anthropic_key_present s')"
  by (simp add: test_anthropic_key_present_def getenv_def)

lemma test_openai_key_present_reads:
  "environ s ''OPENAI_API_KEY'' = environ s' ''OPENAI_API_KEY'' \<Longrightarrow>
     fst (test_openai_key_present s) = fst (test_openai_key_present s')"
  by (simp add: test_openai_key_present_def getenv_def)

lemma test_anthropic_installed_same:
  assumes "import_anthropic py (environ s') = import_anthropic py (environ s)"
  shows "fst (test_anthropic_installed py s) = fst (test_anthropic_installed py s')"
  using assms by (simp add: test_anthropic_installed_def split: sum.splits pyexc.splits)

lemma test_anthropic_installed_reads:
  assumes "environ s = environ s'"
  shows "fst (test_anthropic_installed py s) = fst (test_anthropic_installed py s')"
  by (rule test_anthropic_installed_same) (simp add: assms)

lemma run_check_reads:
  assumes "environ s = environ s'"
  shows "fst (run_check py c s) = fst (run_check py c s')"
proof (cases c)
  case OpenaiKeyPresent
  from assms have "environ s ''OPENAI_API_KEY'' = environ s' ''OPENAI_API_KEY''" by simp
  then have "fst (test_openai_key_present s) = fst (test_openai_key_present s')"
    by (rule test_openai_key_present_reads)
  with OpenaiKeyPresent show ?thesis by simp
next
  case OpenaiCall
  from assms have "fst (test_openai_call py s) = fst (test_openai_call py s')"
    by (rule test_openai_call_reads)
  with OpenaiCall show ?thesis by simp
next
  case AnthropicInstalled
  from assms have "fst (test_anthropic_installed py s) = fst (test_anthropic_installed py s')"
    by (rule test_anthropic_installed_reads)
  with AnthropicInstalled show ?thesis by simp
next
  case AnthropicKeyPresent
  from assms have "environ s ''ANTHROPIC_API_KEY'' = environ s' ''ANTHROPIC_API_KEY''" by simp
  then have "fst (test_anthropic_key_present s) = fst (test_anthropic_key_present s')"
    by (rule test_anthropic_key_present_reads)
  with AnthropicKeyPresent show ?thesis by simp
next
  case AnthropicCall
  from assms have "fst (test_anthropic_call py s) = fst (test_anthropic_call py s')"
    by (rule test_anthropic_call_reads)
  with AnthropicCall show ?thesis by simp
qed

lemma test_openai_call_environ: "environ (snd (test_openai_call py s)) = environ s"
proof (cases "import_openai py (environ s)")
  case (Inl e)
  then show ?thesis by (simp add: test_openai_call_raises(1))
next
  case i: (Inr openai)
  show ?thesis
  proof (cases "OpenAI openai")
    case (Inl e)
    with i show ?thesis by (simp add: test_openai_call_raises(2))
  next
    case n: (Inr new)
    show ?thesis
    proof (cases "new (environ s)")
      case (Inl e)
      with i n show ?thesis by (simp add: test_openai_call_raises(3))
    next
      case (Inr client)
      with i n show ?thesis by (simp add: test_openai_call_with_client)
    qed
  qed
qed

lemma test_anthropic_call_environ: "environ (snd (test_anthropic_call py s)) = environ s"
proof (cases "import_anthropic py (environ s)")
  case (Inl e)
  then show ?thesis by (simp add: test_anthropic_call_raises(1))
next
  case i: (Inr anthropic)
  show ?thesis
  proof (cases "Anthropic anthropic")
    case (Inl e)
    with i show ?thesis by (simp add: test_anthropic_call_raises(2))
  next
    case n: (Inr new)
    show ?thesis
    proof (cases "new (environ s)")
      case (Inl e)
      with i n show ?thesis by (simp add: test_anthropic_call_raises(3))
    next
      case (Inr client)
      with i n show ?thesis by (simp add: test_anthropic_call_with_client)
    qed
  qed
qed

lemma run_check_environ: "environ (snd (run_check py c s)) = environ s"
proof (cases c)
  case OpenaiKeyPresent
  then show ?thesis by (simp add: test_openai_key_present_def)
next
  case OpenaiCall
  then show ?thesis by (simp add: test_openai_call_environ)
next
  case AnthropicInstalled
  then show ?thesis
    by (simp add: test_anthropic_installed_def split: sum.splits pyexc.splits)
next
  case AnthropicKeyPresent
  then show ?thesis by (simp add: test_anthropic_key_present_def)
next
  case AnthropicCall
  then show ?thesis by (simp add: test_anthropic_call_environ)
qed

lemma rerun_outcomes:
  "environ s' = environ s \<Longrightarrow>
     fst (rerun (run_check py c) n s') = replicate n (fst (run_check py c s))
     \<and> environ (snd (rerun (run_check py c) n s')) = environ s"
proof (induction n arbitrary: s')
  case 0
  then show ?case by simp
next
  case (Suc n)
  obtain r t where step: "run_check py c s' = (r, t)" by (cases "run_check py c s'")
  obtain rs u where rest: "rerun (run_check py c) n t = (rs, u)"
    by (cases "rerun (run_check py c) n t")
  from step have "r = fst (run_check py c s')" by simp
  also from Suc.prems have "\<dots> = fst (run_check py c s)" by (rule run_check_reads)
  finally have r: "r = fst (run_check py c s)" .
  from step have "environ t = environ (snd (run_check py c s'))" by simp
  also have "\<dots> = environ s'" by (rule run_check_environ)
  finally have "environ t = environ s" using Suc.prems by simp
  from Suc.IH [OF this] rest
  have "rs = replicate n (fst (run_check py c s))" and "environ u = environ s" by simp_all
  with r step rest show ?case by simp
qed

text \<open>
  C9. For every check, every environment and every (deterministic) pair of provider
  packages, running the check \<open>n\<close> times in a row in one process gives \<open>n\<close> times the
  outcome of the first run. No check keeps state for the next run: a check leaves the
  environment as it found it, and its outcome does not depend on the requests issued
  before it.
\<close>

theorem rerun_same_outcome:
  "fst (rerun (run_check py c) n s) = replicate n (fst (run_check py c s))
   \<and> environ (snd (run_check py c s)) = environ s
   \<and> fst (run_check py c (s\<lparr>issued := l\<rparr>)) = fst (run_check py c s)"
proof (intro conjI)
  have "environ s = environ s" ..
  then have "fst (rerun (run_check py c) n s) = replicate n (fst (run_check py c s))
     \<and> environ (snd (rerun (run_check py c) n s)) = environ s"
    by (rule rerun_outcomes)
  then show "fst (rerun (run_check py c) n s) = replicate n (fst (run_check py c s))" ..
  show "environ (snd (run_check py c s)) = environ s" by (rule run_check_environ)
  have "environ (s\<lparr>issued := l\<rparr>) = environ s" by simp
  then show "fst (run_check py c (s\<lparr>issued := l\<rparr>)) = fst (run_check py c s)"
    by (rule run_check_reads)
qed





end
